theory Spec2Isabelle
  imports Main "HOL-Library.Multiset"
begin

section \<open>Data model of the tool interface (IR2VecTool.h)\<close>

text \<open>
  The header declares the relation kinds of a triplet with their numeric values, the
  triplet itself and the result of triplet generation. The three \<open>unsigned\<close> fields
  only carry entity and relation indices; no arithmetic is done on them in the sources
  at hand, so they are natural numbers here.
\<close>

datatype RelationType = TypeRelation | NextRelation | ArgRelation

fun RelationType_value :: "RelationType \<Rightarrow> nat" where
  "RelationType_value TypeRelation = 0"
| "RelationType_value NextRelation = 1"
| "RelationType_value ArgRelation = 2"

record Triplet =
  Head :: nat
  Tail :: nat
  Relation :: nat

record TripletResult =
  MaxRelation :: nat
  Triplets :: "Triplet list"

text \<open>An embedding is handed to the bindings as the vector behind \<open>getData()\<close>.\<close>

type_synonym 'a Embedding = "'a list"

text \<open>
  The part of a module that the bindings and the triplet walk look at: a function has a
  name and its blocks in layout order, a block is its instructions in program order, and
  an instruction carries the catalog indices of its opcode, of its result type (if it
  has one) and of its operands. A function without blocks is a declaration.
\<close>

record Instruction =
  opcode :: nat
  resultType :: "nat option"
  operands :: "nat list"

type_synonym BasicBlock = "Instruction list"

record Function =
  name :: string
  blocks :: "BasicBlock list"

type_synonym Module = "Function list"

definition isDeclaration :: "Function \<Rightarrow> bool" where
  "isDeclaration F = (blocks F = [])"

definition getFunction :: "Module \<Rightarrow> string \<Rightarrow> Function option" where
  "getFunction Mod FunctionName = find (\<lambda>F. name F = FunctionName) Mod"

section \<open>Exceptions and process-wide state\<close>

text \<open>
  Every failure of the bindings is a \<open>std::runtime_error\<close> with a message. There
  is one constructor for each message that the two bindings throw, and \<open>what\<close> gives
  the message. The \<open>assert\<close> of the MIR binding is a second way to stop, present only
  in a build without \<open>NDEBUG\<close>.
\<close>

datatype error =
    InvalidFilePath
  | InvalidModeIR
  | InvalidModeMIR
  | ParseFailed
  | EmptyVocabPath
  | VocabInitFailedIR
  | VocabInitFailedMIR
  | SetupMIRFailed string
  | FunctionNotImplemented
  | FunctionNotFound string
  | NoMachineFunction string
  | AssertionFailed

fun what :: "error \<Rightarrow> string" where
  "what InvalidFilePath = ''Invalid file path''"
| "what InvalidModeIR = ''Invalid mode. Use 'sym' or '' @ [CHR 0x27] @ ''fa'' @ [CHR 0x27]"
| "what InvalidModeMIR = ''Invalid mode. Only 'sym' mode supported.''"
| "what ParseFailed = ''Failed to parse IR file.''"
| "what EmptyVocabPath = ''Error - Empty Vocab Path not allowed''"
| "what VocabInitFailedIR = ''Failed to initialize IR2Vec vocabulary''"
| "what VocabInitFailedMIR = ''Failed to initialize MIR2Vec vocabulary''"
| "what (SetupMIRFailed Err) = ''Failed to setup MIR context: '' @ Err"
| "what FunctionNotImplemented = ''Function Not Implemented''"
| "what (FunctionNotFound FunctionName) =
     ''Function not found or is a declaration: '' @ FunctionName"
| "what (NoMachineFunction FunctionName) = ''No MachineFunction found for: '' @ FunctionName"
| "what AssertionFailed = ''MIR2Vec vocabulary should be initialized at this point''"

text \<open>
  The bindings have one exception type only. The specification (section 7) names kinds
  of errors, and \<open>error_kind\<close> assigns to each message of the bindings the kind under
  which the specification lists its cause: \<open>InputError\<close> is an unreadable file, an
  unparseable module, an unknown function name or a function without the requested
  form; \<open>ConfigurationError\<close> is an empty or unreadable vocabulary path or an
  unsupported mode; \<open>StateError\<close> is a violated precondition on the vocabulary;
  \<open>UnsupportedCapability\<close> is the disabled embedding path of the lowered
  representation. \<open>NotInitialized\<close> and \<open>OutOfRange\<close> are the failures of the
  vocabulary and the entity catalog (sections 4.1, 4.2 and 4.4).
\<close>

datatype spec_error =
    InputError
  | ConfigurationError
  | StateError
  | UnsupportedCapability
  | NotInitialized
  | OutOfRange

fun error_kind :: "error \<Rightarrow> spec_error" where
  "error_kind InvalidFilePath = InputError"
| "error_kind ParseFailed = InputError"
| "error_kind (SetupMIRFailed Err) = InputError"
| "error_kind (FunctionNotFound FunctionName) = InputError"
| "error_kind (NoMachineFunction FunctionName) = InputError"
| "error_kind InvalidModeIR = ConfigurationError"
| "error_kind InvalidModeMIR = ConfigurationError"
| "error_kind EmptyVocabPath = ConfigurationError"
| "error_kind VocabInitFailedIR = ConfigurationError"
| "error_kind VocabInitFailedMIR = ConfigurationError"
| "error_kind FunctionNotImplemented = UnsupportedCapability"
| "error_kind AssertionFailed = StateError"

text \<open>
  The vocabulary path lives behind \<open>setIR2VecVocabPath\<close>/\<open>getIR2VecVocabPath\<close>
  (and the MIR2Vec pair): process-wide state, not part of any session object. Next to the
  two paths the state keeps a log of the vocabulary calls made so far, which is how the
  order of a set-path call and an initialization call is observed.
\<close>

datatype vocab_call =
    SetIR2VecVocabPath string
  | IR2VecInitializeVocabulary string
  | SetMIR2VecVocabPath string
  | MIR2VecInitializeVocabulary string
  | MIR2VecInitializeVocabularyForLayout

record process_state =
  IR2VecVocabPath :: string
  MIR2VecVocabPath :: string
  vocab_calls :: "vocab_call list"

text \<open>
  Modelled from the spec: the bodies of \<open>setIR2VecVocabPath\<close>,
  \<open>getIR2VecVocabPath\<close>, \<open>setMIR2VecVocabPath\<close> and \<open>getMIR2VecVocabPath\<close>
  are not among the sources (the bindings only declare them). By the specification the
  path is process-wide configuration: a set call stores it, and the most recently set
  path is what is read afterwards. An initialization call takes no path; by the
  specification it observes the path set last, which is why the tool's initialization,
  a parameter below, is handed the path read from this state.
\<close>

definition setIR2VecVocabPath :: "string \<Rightarrow> process_state \<Rightarrow> process_state" where
  "setIR2VecVocabPath Path w =
     w\<lparr>IR2VecVocabPath := Path, vocab_calls := vocab_calls w @ [SetIR2VecVocabPath Path]\<rparr>"

definition getIR2VecVocabPath :: "process_state \<Rightarrow> string" where
  "getIR2VecVocabPath w = IR2VecVocabPath w"

definition setMIR2VecVocabPath :: "string \<Rightarrow> process_state \<Rightarrow> process_state" where
  "setMIR2VecVocabPath Path w =
     w\<lparr>MIR2VecVocabPath := Path, vocab_calls := vocab_calls w @ [SetMIR2VecVocabPath Path]\<rparr>"

definition getMIR2VecVocabPath :: "process_state \<Rightarrow> string" where
  "getMIR2VecVocabPath w = MIR2VecVocabPath w"

section \<open>The portable-IR binding (ir2vec_bindings.cpp)\<close>

text \<open>
  \<open>IR2VecTool\<close> as the header has it: the module and the vocabulary pointer, null
  after construction. The vocabulary itself is opaque to the binding.
\<close>

record 'v IR2VecTool =
  M :: Module
  Vocab :: "'v option"

definition IR2VecTool_ctor :: "Module \<Rightarrow> 'v IR2VecTool" where
  "IR2VecTool_ctor Mod = \<lparr>M = Mod, Vocab = None\<rparr>"

text \<open>
  What the binding takes from outside: whether a file opens (\<open>std::ifstream::good\<close>),
  the IR parser, and \<open>IR2VecTool::initializeVocabulary\<close>, whose body is not among
  the sources. The latter is a parameter; its string argument is the process-wide
  vocabulary path at the moment of the call.
\<close>

record 'v ir_env =
  ir_file_good :: "string \<Rightarrow> bool"
  parseIRFile :: "string \<Rightarrow> Module option"
  IR2VecTool_initializeVocabulary :: "string \<Rightarrow> 'v IR2VecTool \<Rightarrow> bool \<times> 'v IR2VecTool"

definition fileNotValid :: "(string \<Rightarrow> bool) \<Rightarrow> string \<Rightarrow> bool" where
  "fileNotValid good Filename = (\<not> good Filename)"

definition getLLVMIR :: "'v ir_env \<Rightarrow> string \<Rightarrow> error + Module" where
  "getLLVMIR env Filename =
     (case parseIRFile env Filename of
        None \<Rightarrow> Inl ParseFailed
      | Some Mod \<Rightarrow> Inr Mod)"

definition initializeVocabulary ::
  "'v ir_env \<Rightarrow> 'v IR2VecTool \<Rightarrow> process_state \<Rightarrow> (bool \<times> 'v IR2VecTool) \<times> process_state" where
  "initializeVocabulary env T w =
     (IR2VecTool_initializeVocabulary env (getIR2VecVocabPath w) T,
      w\<lparr>vocab_calls := vocab_calls w @ [IR2VecInitializeVocabulary (getIR2VecVocabPath w)]\<rparr>)"

record 'v PyIR2VecTool =
  PyIR_M :: Module
  PyIR_Tool :: "'v IR2VecTool"

definition PyIR2VecTool_ctor ::
  "'v ir_env \<Rightarrow> process_state \<Rightarrow> string \<Rightarrow> string \<Rightarrow> string \<Rightarrow>
   (error + 'v PyIR2VecTool) \<times> process_state" where
  "PyIR2VecTool_ctor env w Filename Mode VocabOverride =
     (if fileNotValid (ir_file_good env) Filename then
        (Inl InvalidFilePath, w)
      else if Mode \<noteq> ''sym'' \<and> Mode \<noteq> ''fa'' then
        (Inl InvalidModeIR, w)
      else
        (case getLLVMIR env Filename of
           Inl e \<Rightarrow> (Inl e, w)
         | Inr Mod \<Rightarrow>
             (let T = IR2VecTool_ctor Mod in
              if VocabOverride = [] then
                (Inl EmptyVocabPath, w)
              else
                (let w1 = setIR2VecVocabPath VocabOverride w;
                     r = initializeVocabulary env T w1
                 in if \<not> fst (fst r) then
                      (Inl VocabInitFailedIR, snd r)
                    else
                      (Inr \<lparr>PyIR_M = Mod, PyIR_Tool = snd (fst r)\<rparr>, snd r)))))"

text \<open>
  The module-level \<open>initEmbedding\<close> of \<open>py_ir2vec\<close>: \<open>mode\<close> defaults to
  \<open>"sym"\<close> and \<open>vocab_override\<close> to the empty string; an omitted argument is
  \<open>None\<close>.
\<close>

definition initEmbedding ::
  "'v ir_env \<Rightarrow> process_state \<Rightarrow> string \<Rightarrow> string option \<Rightarrow> string option \<Rightarrow>
   (error + 'v PyIR2VecTool) \<times> process_state" where
  "initEmbedding env w filename mode vocab_override =
     PyIR2VecTool_ctor env w filename
       (case mode of None \<Rightarrow> ''sym'' | Some m \<Rightarrow> m)
       (case vocab_override of None \<Rightarrow> [] | Some v \<Rightarrow> v)"

text \<open>
  The embedding requests of a portable-IR session. They take no argument: each calls the
  tool (\<open>getFunctionEmbeddings\<close>, \<open>getBBEmbeddings\<close>, \<open>getInstEmbeddings\<close>, whose
  bodies are not among the sources and are parameters here) and converts the result to a
  Python dictionary or list. None of them calls \<open>setIR2VecVocabPath\<close> or
  \<open>initializeVocabulary\<close>, so the process state comes back as it was.
\<close>

definition PyIR2VecTool_getFuncVectorMap ::
  "('v IR2VecTool \<Rightarrow> (string \<times> string \<times> 'a Embedding) list) \<Rightarrow> 'v PyIR2VecTool \<Rightarrow>
   process_state \<Rightarrow> (string \<times> string \<times> 'a list) list \<times> process_state" where
  "PyIR2VecTool_getFuncVectorMap getFunctionEmbeddings s w =
     (map (\<lambda>(demangled_name, actual_name, embedding).
             (demangled_name, actual_name, embedding))
        (getFunctionEmbeddings (PyIR_Tool s)), w)"

definition PyIR2VecTool_generateBBEmbeddings ::
  "('v IR2VecTool \<Rightarrow> (string \<times> 'a Embedding) list) \<Rightarrow> 'v PyIR2VecTool \<Rightarrow>
   process_state \<Rightarrow> (string \<times> 'a list) list \<times> process_state" where
  "PyIR2VecTool_generateBBEmbeddings getBBEmbeddings s w =
     (map (\<lambda>(bb_name, emb). (bb_name, emb)) (getBBEmbeddings (PyIR_Tool s)), w)"

definition PyIR2VecTool_generateInstEmbeddings ::
  "('v IR2VecTool \<Rightarrow> (string \<times> 'a Embedding) list) \<Rightarrow> 'v PyIR2VecTool \<Rightarrow>
   process_state \<Rightarrow> (string \<times> 'a list) list \<times> process_state" where
  "PyIR2VecTool_generateInstEmbeddings getInstEmbeddings s w =
     (map (\<lambda>(inst_str, emb). (inst_str, emb)) (getInstEmbeddings (PyIR_Tool s)), w)"

section \<open>The lowered-representation binding (mir2vec_bindings.cpp)\<close>

text \<open>
  \<open>MIRContext\<close> owns the module and the machine-module information, which gives
  the machine function of a function when there is one.
\<close>

record 'mf MIRContext =
  Ctx_M :: Module
  Ctx_MMI :: "Function \<Rightarrow> 'mf option"

text \<open>
  \<open>MIR2VecTool\<close> is declared in a header that is not among the sources, so the tool
  object is an abstract state \<open>'t\<close> and the member functions the binding calls are
  parameters. \<open>setupMIRContext\<close> yields the context or the text of its error;
  \<open>NDEBUG\<close> says whether \<open>assert\<close> is compiled out. The string argument of
  \<open>MIR2VecTool_initializeVocabulary\<close> is the process-wide vocabulary path at the
  moment of the call.
\<close>

record ('t, 'mf) mir_env =
  mir_file_good :: "string \<Rightarrow> bool"
  setupMIRContext :: "string \<Rightarrow> string + 'mf MIRContext"
  MIR2VecTool_ctor :: "(Function \<Rightarrow> 'mf option) \<Rightarrow> 't"
  NDEBUG :: bool
  MIR2VecTool_getVocabulary :: "'t \<Rightarrow> bool"
  MIR2VecTool_initializeVocabulary :: "string \<Rightarrow> Module \<Rightarrow> 't \<Rightarrow> bool \<times> 't"
  MIR2VecTool_initializeVocabularyForLayout :: "Module \<Rightarrow> 't \<Rightarrow> bool \<times> 't"
  MIR2VecTool_getEntityMappings :: "'t \<Rightarrow> string list"
  MIR2VecTool_getTriplets :: "'t \<Rightarrow> Module \<Rightarrow> TripletResult"

record ('t, 'mf) PyMIR2VecTool =
  Ctx :: "'mf MIRContext"
  Tool :: 't
  Mode :: string
  VocabInitialized :: bool

text \<open>The Python dictionary that \<open>generateTriplets\<close> returns.\<close>

record triplets_dict =
  max_relation :: nat
  triplets :: "(nat \<times> nat \<times> nat) list"

definition to_triplets_dict :: "TripletResult \<Rightarrow> triplets_dict" where
  "to_triplets_dict result =
     \<lparr>max_relation = MaxRelation result,
      triplets = map (\<lambda>t. (Head t, Tail t, Relation t)) (Triplets result)\<rparr>"

definition verifyMIR2VecVocabulary ::
  "('t, 'mf) mir_env \<Rightarrow> ('t, 'mf) PyMIR2VecTool \<Rightarrow> error + unit" where
  "verifyMIR2VecVocabulary env s =
     (if \<not> NDEBUG env \<and> \<not> MIR2VecTool_getVocabulary env (Tool s) then
        Inl AssertionFailed
      else Inr ())"

definition initializeMIR2VecVocabularyForEmb ::
  "('t, 'mf) mir_env \<Rightarrow> ('t, 'mf) PyMIR2VecTool \<Rightarrow> process_state \<Rightarrow> string \<Rightarrow>
   (error + unit) \<times> ('t, 'mf) PyMIR2VecTool \<times> process_state" where
  "initializeMIR2VecVocabularyForEmb env s w vocab_path =
     (let w1 = setMIR2VecVocabPath vocab_path w;
          r = MIR2VecTool_initializeVocabulary env (getMIR2VecVocabPath w1) (Ctx_M (Ctx s)) (Tool s);
          w2 = w1\<lparr>vocab_calls :=
                    vocab_calls w1 @ [MIR2VecInitializeVocabulary (getMIR2VecVocabPath w1)]\<rparr>;
          s1 = s\<lparr>Tool := snd r\<rparr>
      in if \<not> fst r then
           (Inl VocabInitFailedMIR, s1, w2)
         else (verifyMIR2VecVocabulary env s1, s1, w2))"

definition getMachineFunction ::
  "('t, 'mf) PyMIR2VecTool \<Rightarrow> string \<Rightarrow> error + 'mf" where
  "getMachineFunction s FunctionName =
     (case getFunction (Ctx_M (Ctx s)) FunctionName of
        None \<Rightarrow>
          Inl (FunctionNotFound FunctionName)
      | Some F \<Rightarrow>
          if isDeclaration F then
            Inl (FunctionNotFound FunctionName)
          else
            (case Ctx_MMI (Ctx s) F of
               None \<Rightarrow> Inl (NoMachineFunction FunctionName)
             | Some MF \<Rightarrow> Inr MF))"

text \<open>
  A statement that may throw, run on the session and the process state, yields the
  exception or a value, and the state it leaves. \<open>throw\<close> raises; \<open>and_then\<close>
  runs the rest only if the first statement has not thrown.
\<close>

definition throw :: "error \<Rightarrow> 'st \<Rightarrow> (error + 'r) \<times> 'st" where
  "throw e st = (Inl e, st)"

definition and_then ::
  "('st \<Rightarrow> (error + 'b) \<times> 'st) \<Rightarrow> ('b \<Rightarrow> 'st \<Rightarrow> (error + 'c) \<times> 'st) \<Rightarrow>
   'st \<Rightarrow> (error + 'c) \<times> 'st" where
  "and_then m f st = (case m st of (Inl e, st') \<Rightarrow> (Inl e, st') | (Inr x, st') \<Rightarrow> f x st')"

text \<open>
  \<open>generateEmbeddings\<close>: the \<open>throw\<close> is its first statement; after it come the
  initialization on the given vocabulary path, the lookup of the machine function, the
  call of the embedding function and the conversion to a Python list of pairs.
\<close>

definition generateEmbeddings ::
  "('t, 'mf) mir_env \<Rightarrow> ('t, 'mf) PyMIR2VecTool \<Rightarrow> process_state \<Rightarrow> string \<Rightarrow> string \<Rightarrow>
   ('t \<Rightarrow> 'mf \<Rightarrow> (string \<times> 'a Embedding) list) \<Rightarrow>
   (error + (string \<times> 'a list) list) \<times> ('t, 'mf) PyMIR2VecTool \<times> process_state" where
  "generateEmbeddings env s w FunctionName vocab_path getEmbeddingsFn =
     and_then (throw FunctionNotImplemented)
       (\<lambda>(u :: unit) (s0, w0).
          case initializeMIR2VecVocabularyForEmb env s0 w0 vocab_path of
            (Inl e, s1, w1) \<Rightarrow> (Inl e, s1, w1)
          | (Inr _, s1, w1) \<Rightarrow>
              (case getMachineFunction s1 FunctionName of
                 Inl e \<Rightarrow> (Inl e, s1, w1)
               | Inr MF \<Rightarrow>
                   (Inr (map (\<lambda>(key, emb). (key, emb)) (getEmbeddingsFn (Tool s1) MF)),
                    s1, w1)))
       (s, w)"

definition PyMIR2VecTool_ctor ::
  "('t, 'mf) mir_env \<Rightarrow> string \<Rightarrow> string \<Rightarrow> error + ('t, 'mf) PyMIR2VecTool" where
  "PyMIR2VecTool_ctor env Filename Mode' =
     (if fileNotValid (mir_file_good env) Filename then
        Inl InvalidFilePath
      else if Mode' \<noteq> ''sym'' then
        Inl InvalidModeMIR
      else
        (case setupMIRContext env Filename of
           Inl Err \<Rightarrow> Inl (SetupMIRFailed Err)
         | Inr C \<Rightarrow>
             Inr \<lparr>Ctx = C, Tool = MIR2VecTool_ctor env (Ctx_MMI C), Mode = Mode',
                  VocabInitialized = False\<rparr>))"

definition getEntityMappings ::
  "('t, 'mf) mir_env \<Rightarrow> ('t, 'mf) PyMIR2VecTool \<Rightarrow> process_state \<Rightarrow>
   (error + string list) \<times> ('t, 'mf) PyMIR2VecTool \<times> process_state" where
  "getEntityMappings env s w =
     (let r = MIR2VecTool_initializeVocabularyForLayout env (Ctx_M (Ctx s)) (Tool s);
          w1 = w\<lparr>vocab_calls := vocab_calls w @ [MIR2VecInitializeVocabularyForLayout]\<rparr>;
          s1 = s\<lparr>Tool := snd r\<rparr>
      in if \<not> fst r then
           (Inl VocabInitFailedMIR, s1, w1)
         else
           (case verifyMIR2VecVocabulary env s1 of
              Inl e \<Rightarrow> (Inl e, s1, w1)
            | Inr _ \<Rightarrow> (Inr (MIR2VecTool_getEntityMappings env (Tool s1)), s1, w1)))"

definition generateTriplets ::
  "('t, 'mf) mir_env \<Rightarrow> ('t, 'mf) PyMIR2VecTool \<Rightarrow> process_state \<Rightarrow>
   (error + triplets_dict) \<times> ('t, 'mf) PyMIR2VecTool \<times> process_state" where
  "generateTriplets env s w =
     (let r = MIR2VecTool_initializeVocabularyForLayout env (Ctx_M (Ctx s)) (Tool s);
          w1 = w\<lparr>vocab_calls := vocab_calls w @ [MIR2VecInitializeVocabularyForLayout]\<rparr>;
          s1 = s\<lparr>Tool := snd r\<rparr>
      in if \<not> fst r then
           (Inl VocabInitFailedMIR, s1, w1)
         else
           (case verifyMIR2VecVocabulary env s1 of
              Inl e \<Rightarrow> (Inl e, s1, w1)
            | Inr _ \<Rightarrow>
                (Inr (to_triplets_dict (MIR2VecTool_getTriplets env (Tool s1) (Ctx_M (Ctx s1)))),
                 s1, w1)))"

text \<open>
  The three embedding entry points. \<open>vocab_path\<close> defaults to the empty string; an
  omitted argument is \<open>None\<close>. \<open>getFuncVectorMap\<close> also throws in its first
  statement; after it come the initialization, the call of
  \<open>Tool->getFunctionEmbeddings\<close> (a parameter, like the embedding functions of the
  other two) and the conversion to a dictionary from the demangled name to the actual
  name and the vector.
\<close>

definition getFuncVectorMap ::
  "('t, 'mf) mir_env \<Rightarrow> ('t \<Rightarrow> Module \<Rightarrow> (string \<times> string \<times> 'a Embedding) list) \<Rightarrow>
   ('t, 'mf) PyMIR2VecTool \<Rightarrow> process_state \<Rightarrow> string option \<Rightarrow>
   (error + (string \<times> string \<times> 'a list) list) \<times> ('t, 'mf) PyMIR2VecTool \<times> process_state" where
  "getFuncVectorMap env getFunctionEmbeddings s w vocab_path =
     and_then (throw FunctionNotImplemented)
       (\<lambda>(u :: unit) (s0, w0).
          case initializeMIR2VecVocabularyForEmb env s0 w0
                 (case vocab_path of None \<Rightarrow> [] | Some p \<Rightarrow> p) of
            (Inl e, s1, w1) \<Rightarrow> (Inl e, s1, w1)
          | (Inr _, s1, w1) \<Rightarrow>
              (Inr (map (\<lambda>(demangled_name, actual_name, embedding).
                           (demangled_name, actual_name, embedding))
                      (getFunctionEmbeddings (Tool s1) (Ctx_M (Ctx s1)))),
               s1, w1))
       (s, w)"

definition generateMBBEmbeddings ::
  "('t, 'mf) mir_env \<Rightarrow> ('t \<Rightarrow> 'mf \<Rightarrow> (string \<times> 'a Embedding) list) \<Rightarrow>
   ('t, 'mf) PyMIR2VecTool \<Rightarrow> process_state \<Rightarrow> string \<Rightarrow> string option \<Rightarrow>
   (error + (string \<times> 'a list) list) \<times> ('t, 'mf) PyMIR2VecTool \<times> process_state" where
  "generateMBBEmbeddings env getMBBEmbeddings s w FunctionName vocab_path =
     generateEmbeddings env s w FunctionName
       (case vocab_path of None \<Rightarrow> [] | Some p \<Rightarrow> p) getMBBEmbeddings"

definition generateMInstEmbeddings ::
  "('t, 'mf) mir_env \<Rightarrow> ('t \<Rightarrow> 'mf \<Rightarrow> (string \<times> 'a Embedding) list) \<Rightarrow>
   ('t, 'mf) PyMIR2VecTool \<Rightarrow> process_state \<Rightarrow> string \<Rightarrow> string option \<Rightarrow>
   (error + (string \<times> 'a list) list) \<times> ('t, 'mf) PyMIR2VecTool \<times> process_state" where
  "generateMInstEmbeddings env getMInstEmbeddings s w FunctionName vocab_path =
     generateEmbeddings env s w FunctionName
       (case vocab_path of None \<Rightarrow> [] | Some p \<Rightarrow> p) getMInstEmbeddings"

text \<open>The module-level \<open>initEmbedding\<close> of \<open>py_mir2vec\<close>; \<open>mode\<close> defaults to \<open>"sym"\<close>.\<close>

definition initEmbedding_mir ::
  "('t, 'mf) mir_env \<Rightarrow> string \<Rightarrow> string option \<Rightarrow> error + ('t, 'mf) PyMIR2VecTool" where
  "initEmbedding_mir env filename mode =
     PyMIR2VecTool_ctor env filename (case mode of None \<Rightarrow> ''sym'' | Some m \<Rightarrow> m)"

section \<open>Triplet extraction\<close>

text \<open>
  Modelled from the spec: \<open>IR2VecTool::getTriplets\<close> (for the module and for one
  function) is declared in IR2VecTool.h, and its body is not among the sources. The
  walk of section 4.5 of the specification: functions (those with a body), then blocks
  in layout order, then instructions in program order; for an instruction with opcode
  entity \<open>O\<close>, a \<open>TypeOf\<close> triple to its result type entity if it has one, a
  \<open>Next\<close> triple to the opcode entity of the instruction that immediately follows it
  in the same block, and an \<open>ArgOf\<close> triple from each operand entity. \<open>MaxRelation\<close>
  is the upper bound of the relation kinds declared in the header.
\<close>

definition functionsOf :: "Module \<Rightarrow> Function list" where
  "functionsOf Mod = filter (\<lambda>F. \<not> isDeclaration F) Mod"

definition typeTriplets :: "Instruction \<Rightarrow> Triplet list" where
  "typeTriplets I =
     (case resultType I of
        None \<Rightarrow> []
      | Some T \<Rightarrow> [\<lparr>Head = opcode I, Tail = T, Relation = RelationType_value TypeRelation\<rparr>])"

definition nextTriplet :: "Instruction \<Rightarrow> Instruction \<Rightarrow> Triplet" where
  "nextTriplet I I' =
     \<lparr>Head = opcode I, Tail = opcode I', Relation = RelationType_value NextRelation\<rparr>"

definition argTriplets :: "Instruction \<Rightarrow> Triplet list" where
  "argTriplets I =
     map (\<lambda>P. \<lparr>Head = P, Tail = opcode I, Relation = RelationType_value ArgRelation\<rparr>)
       (operands I)"

fun blockTriplets :: "BasicBlock \<Rightarrow> Triplet list" where
  "blockTriplets [] = []"
| "blockTriplets (I # rest) =
     typeTriplets I
     @ (case rest of [] \<Rightarrow> [] | I' # _ \<Rightarrow> [nextTriplet I I'])
     @ argTriplets I
     @ blockTriplets rest"

definition functionTriplets :: "Function \<Rightarrow> Triplet list" where
  "functionTriplets F = concat (map blockTriplets (blocks F))"

definition getTriplets_Function :: "Function \<Rightarrow> TripletResult" where
  "getTriplets_Function F =
     \<lparr>MaxRelation = RelationType_value ArgRelation, Triplets = functionTriplets F\<rparr>"

definition getTriplets :: "Module \<Rightarrow> TripletResult" where
  "getTriplets Mod =
     \<lparr>MaxRelation = RelationType_value ArgRelation,
      Triplets = concat (map functionTriplets (functionsOf Mod))\<rparr>"

text \<open>\<open>PyIR2VecTool::generateTriplets\<close> turns the result into a Python dictionary.\<close>

definition PyIR2VecTool_generateTriplets :: "'v PyIR2VecTool \<Rightarrow> triplets_dict" where
  "PyIR2VecTool_generateTriplets s = to_triplets_dict (getTriplets (M (PyIR_Tool s)))"

text \<open>
  The \<open>Next\<close> triples that the specification allows for a block: one for each pair of
  instructions that stand next to each other in it.
\<close>

definition consecutiveNext :: "BasicBlock \<Rightarrow> Triplet list" where
  "consecutiveNext B = map (\<lambda>k. nextTriplet (B ! k) (B ! Suc k)) [0..<length B - 1]"

section \<open>Vocabulary and embedding aggregation\<close>

text \<open>
  Modelled from the spec: the vocabulary (\<open>llvm/Analysis/IR2Vec.h\<close>) and
  \<open>IR2VecTool::getInstEmbeddings\<close>, \<open>getBBEmbeddings\<close> and
  \<open>getFunctionEmbeddings\<close> are only declared or included; their bodies are not among
  the sources. Sections 3, 4.2 and 4.4 of the specification: a vocabulary has a dimension
  and one embedding for each entity of the catalog, in catalog order; full initialization
  reads (entity name, vector) pairs from the file at the given path and succeeds only if
  the path is not empty, the file can be read, every entity of the catalog has a vector
  and all vectors have one dimension. An instruction embedding is a weighted combination
  of the vectors of the opcode, the result type (if any) and the operands; a block
  embedding is the scaled sum of its instructions' embeddings and a function embedding the
  scaled sum of its blocks' embeddings. The arithmetic on vector elements (floating point
  in the program) and the weights, which the specification does not fix, are parameters.
\<close>

record 'a Vocabulary =
  dimension :: nat
  table :: "'a Embedding list"

definition canonicalSize :: "'a Vocabulary \<Rightarrow> nat" where
  "canonicalSize V = length (table V)"

fun those_list :: "'b option list \<Rightarrow> 'b list option" where
  "those_list [] = Some []"
| "those_list (None # _) = None"
| "those_list (Some x # xs) = (case those_list xs of None \<Rightarrow> None | Some ys \<Rightarrow> Some (x # ys))"

definition initializeFull ::
  "string list \<Rightarrow> (string \<Rightarrow> (string \<times> 'a Embedding) list option) \<Rightarrow> string \<Rightarrow>
   spec_error + 'a Vocabulary" where
  "initializeFull catalog vocabulary_file path =
     (if path = [] then Inl ConfigurationError
      else
        (case vocabulary_file path of
           None \<Rightarrow> Inl ConfigurationError
         | Some [] \<Rightarrow> Inl ConfigurationError
         | Some ((n, v) # pairs) \<Rightarrow>
             (case those_list (map (map_of ((n, v) # pairs)) catalog) of
                None \<Rightarrow> Inl ConfigurationError
              | Some tbl \<Rightarrow>
                  if list_all (\<lambda>e. length e = length v) tbl then
                    Inr \<lparr>dimension = length v, table = tbl\<rparr>
                  else Inl ConfigurationError)))"

record 'a weights =
  add :: "'a \<Rightarrow> 'a \<Rightarrow> 'a"
  mul :: "'a \<Rightarrow> 'a \<Rightarrow> 'a"
  zero :: 'a
  opcodeWeight :: 'a
  typeWeight :: 'a
  argWeight :: 'a
  levelScale :: "nat \<Rightarrow> 'a"

definition vadd :: "'a weights \<Rightarrow> 'a Embedding \<Rightarrow> 'a Embedding \<Rightarrow> 'a Embedding" where
  "vadd ar x y = map2 (add ar) x y"

definition vscale :: "'a weights \<Rightarrow> 'a \<Rightarrow> 'a Embedding \<Rightarrow> 'a Embedding" where
  "vscale ar c x = map (mul ar c) x"

definition vzero :: "'a weights \<Rightarrow> nat \<Rightarrow> 'a Embedding" where
  "vzero ar D = replicate D (zero ar)"

definition vsum :: "'a weights \<Rightarrow> nat \<Rightarrow> 'a Embedding list \<Rightarrow> 'a Embedding" where
  "vsum ar D xs = foldl (vadd ar) (vzero ar D) xs"

definition bindE :: "'e + 'b \<Rightarrow> ('b \<Rightarrow> 'e + 'c) \<Rightarrow> 'e + 'c" where
  "bindE r f = (case r of Inl e \<Rightarrow> Inl e | Inr x \<Rightarrow> f x)"

fun mapE :: "('b \<Rightarrow> 'e + 'c) \<Rightarrow> 'b list \<Rightarrow> 'e + 'c list" where
  "mapE f [] = Inr []"
| "mapE f (x # xs) = bindE (f x) (\<lambda>y. bindE (mapE f xs) (\<lambda>ys. Inr (y # ys)))"

definition lookupEntity :: "'a Vocabulary \<Rightarrow> nat \<Rightarrow> spec_error + 'a Embedding" where
  "lookupEntity V i = (if i < canonicalSize V then Inr (table V ! i) else Inl OutOfRange)"

definition embedInstruction ::
  "'a weights \<Rightarrow> 'a Vocabulary option \<Rightarrow> Instruction \<Rightarrow> spec_error + 'a Embedding" where
  "embedInstruction ar Vo I =
     (case Vo of
        None \<Rightarrow> Inl NotInitialized
      | Some V \<Rightarrow>
          bindE (lookupEntity V (opcode I)) (\<lambda>ov.
          bindE (case resultType I of
                   None \<Rightarrow> Inr (vzero ar (dimension V))
                 | Some T \<Rightarrow> bindE (lookupEntity V T) (\<lambda>t. Inr (vscale ar (typeWeight ar) t)))
            (\<lambda>tv.
          bindE (mapE (lookupEntity V) (operands I)) (\<lambda>args.
            Inr (vadd ar (vadd ar (vscale ar (opcodeWeight ar) ov) tv)
                   (vscale ar (argWeight ar) (vsum ar (dimension V) args)))))))"

definition aggregate :: "'a weights \<Rightarrow> nat \<Rightarrow> 'a Embedding list \<Rightarrow> 'a Embedding" where
  "aggregate ar D xs = vscale ar (levelScale ar (length xs)) (vsum ar D xs)"

definition embedBlock ::
  "'a weights \<Rightarrow> 'a Vocabulary option \<Rightarrow> BasicBlock \<Rightarrow> spec_error + 'a Embedding" where
  "embedBlock ar Vo B =
     (case Vo of
        None \<Rightarrow> Inl NotInitialized
      | Some V \<Rightarrow>
          bindE (mapE (embedInstruction ar Vo) B) (\<lambda>es. Inr (aggregate ar (dimension V) es)))"

definition embedFunction ::
  "'a weights \<Rightarrow> 'a Vocabulary option \<Rightarrow> Function \<Rightarrow> spec_error + 'a Embedding" where
  "embedFunction ar Vo F =
     (case Vo of
        None \<Rightarrow> Inl NotInitialized
      | Some V \<Rightarrow>
          bindE (mapE (embedBlock ar Vo) (blocks F)) (\<lambda>es. Inr (aggregate ar (dimension V) es)))"

text \<open>
  The invariant of a fully initialized vocabulary (section 3 of the specification): every
  entity has an embedding of the vocabulary's dimension.
\<close>

definition vocabulary_ok :: "'a Vocabulary \<Rightarrow> bool" where
  "vocabulary_ok V = list_all (\<lambda>e. length e = dimension V) (table V)"

section \<open>Example inputs\<close>

text \<open>
  Concrete inputs at which the theorems below are instantiated: a process state with no
  vocabulary path set, a module with a defined function \<open>f\<close> of two blocks, a
  declaration \<open>g\<close> and a defined function \<open>h\<close> that has no machine function, and
  a file system in which only \<open>test.ll\<close> and \<open>test.mir\<close> open and parse and only
  \<open>vocab.json\<close> is a vocabulary. The example MIR tool is a flag that says whether
  a vocabulary is installed.
\<close>

definition w0 :: process_state where
  "w0 = \<lparr>IR2VecVocabPath = [], MIR2VecVocabPath = [], vocab_calls = []\<rparr>"

definition add_ret_block :: BasicBlock where
  "add_ret_block =
     [\<lparr>opcode = 13, resultType = Some 70, operands = [80, 80]\<rparr>,
      \<lparr>opcode = 1, resultType = None, operands = [80]\<rparr>]"

definition example_module :: Module where
  "example_module =
     [\<lparr>name = ''f'',
       blocks = [add_ret_block, [\<lparr>opcode = 2, resultType = None, operands = []\<rparr>]]\<rparr>,
      \<lparr>name = ''g'', blocks = []\<rparr>,
      \<lparr>name = ''h'', blocks = [[\<lparr>opcode = 1, resultType = None, operands = []\<rparr>]]\<rparr>]"

definition load_vocabulary :: "string \<Rightarrow> unit IR2VecTool \<Rightarrow> bool \<times> unit IR2VecTool" where
  "load_vocabulary Path T =
     (Path = ''vocab.json'',
      T\<lparr>Vocab := (if Path = ''vocab.json'' then Some () else None)\<rparr>)"

definition only_test_ll :: "string \<Rightarrow> bool" where
  "only_test_ll Filename = (Filename = ''test.ll'')"

definition parse_example :: "string \<Rightarrow> Module option" where
  "parse_example Filename = (if Filename = ''test.ll'' then Some example_module else None)"

definition example_ir_env :: "unit ir_env" where
  "example_ir_env =
     \<lparr>ir_file_good = only_test_ll, parseIRFile = parse_example,
      IR2VecTool_initializeVocabulary = load_vocabulary\<rparr>"

definition only_test_mir :: "string \<Rightarrow> bool" where
  "only_test_mir Filename = (Filename = ''test.mir'')"

definition example_MMI :: "Function \<Rightarrow> nat option" where
  "example_MMI F = (if name F = ''f'' then Some 0 else None)"

definition example_Ctx :: "nat MIRContext" where
  "example_Ctx = \<lparr>Ctx_M = example_module, Ctx_MMI = example_MMI\<rparr>"

definition example_setup :: "string \<Rightarrow> string + nat MIRContext" where
  "example_setup Filename =
     (if Filename = ''test.mir'' then Inr example_Ctx else Inl ''cannot open file'')"

definition new_tool :: "(Function \<Rightarrow> nat option) \<Rightarrow> bool" where
  "new_tool MMI = False"

definition tool_has_vocabulary :: "bool \<Rightarrow> bool" where
  "tool_has_vocabulary T = T"

definition full_init :: "string \<Rightarrow> Module \<Rightarrow> bool \<Rightarrow> bool \<times> bool" where
  "full_init Path Mod T = (Path = ''vocab.json'', T \<or> Path = ''vocab.json'')"

definition layout_init :: "Module \<Rightarrow> bool \<Rightarrow> bool \<times> bool" where
  "layout_init Mod T = (True, True)"

definition example_entities :: "bool \<Rightarrow> string list" where
  "example_entities T = [''ADD'', ''RET'']"

definition example_mir_triplets :: "bool \<Rightarrow> Module \<Rightarrow> TripletResult" where
  "example_mir_triplets T Mod =
     \<lparr>MaxRelation = 2, Triplets = [\<lparr>Head = 0, Tail = 1, Relation = 1\<rparr>]\<rparr>"

definition example_mir_env :: "(bool, nat) mir_env" where
  "example_mir_env =
     \<lparr>mir_file_good = only_test_mir, setupMIRContext = example_setup,
      MIR2VecTool_ctor = new_tool, NDEBUG = False,
      MIR2VecTool_getVocabulary = tool_has_vocabulary,
      MIR2VecTool_initializeVocabulary = full_init,
      MIR2VecTool_initializeVocabularyForLayout = layout_init,
      MIR2VecTool_getEntityMappings = example_entities,
      MIR2VecTool_getTriplets = example_mir_triplets\<rparr>"

definition example_session :: "(bool, nat) PyMIR2VecTool" where
  "example_session =
     \<lparr>Ctx = example_Ctx, Tool = False, Mode = ''sym'', VocabInitialized = False\<rparr>"

definition no_embeddings :: "bool \<Rightarrow> nat \<Rightarrow> (string \<times> int Embedding) list" where
  "no_embeddings T MF = []"

definition no_function_embeddings ::
  "bool \<Rightarrow> Module \<Rightarrow> (string \<times> string \<times> int Embedding) list" where
  "no_function_embeddings T Mod = []"

definition example_ir_session :: "unit PyIR2VecTool" where
  "example_ir_session =
     \<lparr>PyIR_M = example_module, PyIR_Tool = \<lparr>M = example_module, Vocab = Some ()\<rparr>\<rparr>"

definition example_ir_function_embeddings ::
  "unit IR2VecTool \<Rightarrow> (string \<times> string \<times> int Embedding) list" where
  "example_ir_function_embeddings T = [(''f'', ''f'', [36, 20])]"

definition example_ir_embeddings :: "unit IR2VecTool \<Rightarrow> (string \<times> int Embedding) list" where
  "example_ir_embeddings T = [(''entry'', [18, 10])]"

definition no_operand_module :: Module where
  "no_operand_module =
     [\<lparr>name = ''k'',
       blocks = [[\<lparr>opcode = 5, resultType = Some 70, operands = []\<rparr>,
                  \<lparr>opcode = 1, resultType = None, operands = []\<rparr>]]\<rparr>]"

text \<open>
  A vocabulary of dimension 2 for a catalog of three entities, with integers in place of
  the floating-point elements, and a block that adds and returns.
\<close>

definition int_weights :: "int weights" where
  "int_weights =
     \<lparr>add = (+), mul = (*), zero = 0, opcodeWeight = 1, typeWeight = 2, argWeight = 3,
      levelScale = (\<lambda>n. 1)\<rparr>"

definition example_catalog :: "string list" where
  "example_catalog = [''add'', ''ret'', ''i32'']"

definition example_vocabulary_file :: "string \<Rightarrow> (string \<times> int Embedding) list option" where
  "example_vocabulary_file path =
     (if path = ''vocab.json''
      then Some [(''i32'', [1, 0]), (''add'', [2, 3]), (''ret'', [5, 7])]
      else None)"

definition example_vocabulary :: "int Vocabulary" where
  "example_vocabulary = \<lparr>dimension = 2, table = [[2, 3], [5, 7], [1, 0]]\<rparr>"

definition example_block :: BasicBlock where
  "example_block =
     [\<lparr>opcode = 0, resultType = Some 2, operands = [2, 2]\<rparr>,
      \<lparr>opcode = 1, resultType = None, operands = [2]\<rparr>]"


section \<open>Session construction in the portable-IR binding\<close>

text \<open>
  Claim C10. A call of the portable-IR \<open>initEmbedding\<close> that leaves out
  \<open>vocab_override\<close> always fails, whatever the file and the mode are: the default
  is the empty string, and the constructor has no path on which an empty vocabulary path
  yields a session. The error is the one of the first check that fails, in the order of
  the constructor: the file, the mode, the parser, and at last the empty path itself. The
  process state is as before the call.
\<close>

theorem initEmbedding_without_vocab_override_fails:
  "initEmbedding env w filename mode None =
     (Inl (if fileNotValid (ir_file_good env) filename then InvalidFilePath
           else if mode \<noteq> None \<and> mode \<noteq> Some ''sym'' \<and> mode \<noteq> Some ''fa'' then InvalidModeIR
           else if parseIRFile env filename = None then ParseFailed
           else EmptyVocabPath), w)"
  by (auto simp: initEmbedding_def PyIR2VecTool_ctor_def getLLVMIR_def Let_def
           split: option.splits)

theorem initEmbedding_without_vocab_override_fails_witness:
  "initEmbedding example_ir_env w0 ''test.ll'' None None = (Inl EmptyVocabPath, w0)"
  using initEmbedding_without_vocab_override_fails [of example_ir_env w0 "''test.ll''" None]
  by (simp add: example_ir_env_def fileNotValid_def only_test_ll_def parse_example_def)

text \<open>
  Claim C5. A session-initialization request with an empty vocabulary path fails, and
  it fails before any vocabulary work: the process state, with the vocabulary path and
  the log of vocabulary calls, is unchanged. For a request whose module file loads (it
  opens and parses) the failure is a \<open>ConfigurationError\<close>: the empty-path error when
  the mode is \<open>sym\<close> or \<open>fa\<close>, and the invalid-mode error for any other mode.
\<close>

theorem empty_vocab_path_rejected:
  "\<exists>e. PyIR2VecTool_ctor env w Filename mode [] = (Inl e, w)
     \<and> (\<not> fileNotValid (ir_file_good env) Filename \<and> parseIRFile env Filename \<noteq> None
          \<longrightarrow> error_kind e = ConfigurationError
              \<and> e = (if mode = ''sym'' \<or> mode = ''fa'' then EmptyVocabPath else InvalidModeIR))"
  by (auto simp: PyIR2VecTool_ctor_def getLLVMIR_def Let_def split: option.splits)

theorem empty_vocab_path_rejected_witness:
  "PyIR2VecTool_ctor example_ir_env w0 ''test.ll'' ''sym'' [] = (Inl EmptyVocabPath, w0)
   \<and> error_kind EmptyVocabPath = ConfigurationError
   \<and> PyIR2VecTool_ctor example_ir_env w0 ''test.ll'' ''bogus'' [] = (Inl InvalidModeIR, w0)
   \<and> error_kind InvalidModeIR = ConfigurationError"
  using empty_vocab_path_rejected [of example_ir_env w0 "''test.ll''" "''sym''"]
    empty_vocab_path_rejected [of example_ir_env w0 "''test.ll''" "''bogus''"]
  by (auto simp: example_ir_env_def fileNotValid_def only_test_ll_def parse_example_def)

text \<open>
  Claim C2, as stated, has the portable-IR constructor reject the mode \<open>fa\<close>. The
  mode check of that constructor lets \<open>fa\<close> pass: with a file that parses and a
  vocabulary that loads, the request yields a session.
\<close>

theorem flow_aware_accepted_counterexample:
  "fst (PyIR2VecTool_ctor example_ir_env w0 ''test.ll'' ''fa'' ''vocab.json'') =
     Inr \<lparr>PyIR_M = example_module, PyIR_Tool = \<lparr>M = example_module, Vocab = Some ()\<rparr>\<rparr>"
  by (simp add: PyIR2VecTool_ctor_def example_ir_env_def fileNotValid_def only_test_ll_def
      parse_example_def getLLVMIR_def initializeVocabulary_def load_vocabulary_def
      setIR2VecVocabPath_def getIR2VecVocabPath_def IR2VecTool_ctor_def w0_def Let_def)

text \<open>
  Claim C2, amended. On the lowered-representation path a request with mode \<open>fa\<close>
  always fails: with the invalid-mode error (``Only 'sym' mode supported'') when the file
  opens, and with the file error otherwise. On the portable-IR path \<open>fa\<close> is an
  accepted mode, and the constructor does with it exactly what it does with \<open>sym\<close>.
\<close>

theorem flow_aware_mode:
  "PyMIR2VecTool_ctor menv Filename ''fa'' =
     Inl (if fileNotValid (mir_file_good menv) Filename then InvalidFilePath else InvalidModeMIR)
   \<and> initEmbedding_mir menv Filename (Some ''fa'') = PyMIR2VecTool_ctor menv Filename ''fa''
   \<and> what InvalidModeMIR = ''Invalid mode. Only 'sym' mode supported.''
   \<and> PyIR2VecTool_ctor env w Filename' ''fa'' VocabOverride =
     PyIR2VecTool_ctor env w Filename' ''sym'' VocabOverride
   \<and> initEmbedding env w Filename' (Some ''fa'') vocab_override =
     initEmbedding env w Filename' None vocab_override"
  by (simp add: PyMIR2VecTool_ctor_def PyIR2VecTool_ctor_def initEmbedding_mir_def
      initEmbedding_def)

theorem flow_aware_mode_witness:
  "PyMIR2VecTool_ctor example_mir_env ''test.mir'' ''fa'' = Inl InvalidModeMIR
   \<and> initEmbedding_mir example_mir_env ''test.mir'' (Some ''fa'') = Inl InvalidModeMIR
   \<and> PyIR2VecTool_ctor example_ir_env w0 ''test.ll'' ''fa'' ''vocab.json'' =
     PyIR2VecTool_ctor example_ir_env w0 ''test.ll'' ''sym'' ''vocab.json''"
  using flow_aware_mode [where menv = example_mir_env and Filename = "''test.mir''"
      and env = example_ir_env and w = w0 and Filename' = "''test.ll''"
      and VocabOverride = "''vocab.json''"]
  by (simp add: example_mir_env_def fileNotValid_def only_test_mir_def)

section \<open>The lowered-representation session\<close>

text \<open>
  Claim C1. On every lowered-representation session and for all arguments,
  \<open>getFuncVectorMap\<close>, \<open>generateMBBEmbeddings\<close> and
  \<open>generateMInstEmbeddings\<close> fail with ``Function Not Implemented'', the
  \<open>UnsupportedCapability\<close> error, and leave the session and the process state as they
  were: nothing has been done when they fail. \<open>generateTriplets\<close> and
  \<open>getEntityMappings\<close> have no such gate: when layout initialization succeeds, that
  is, \<open>initializeVocabularyForLayout\<close> returns true and (where \<open>assert\<close> is compiled
  in) has installed a vocabulary, they return the tool's triplets and entity names.
\<close>

theorem lowered_embedding_entry_points_not_implemented:
  "getFuncVectorMap env (getFE :: 't \<Rightarrow> Module \<Rightarrow> (string \<times> string \<times> 'a Embedding) list) s w
         vocab_path = (Inl FunctionNotImplemented, s, w)
   \<and> generateMBBEmbeddings env (getMBB :: 't \<Rightarrow> 'mf \<Rightarrow> (string \<times> 'a Embedding) list) s w
         FunctionName vocab_path =
       (Inl FunctionNotImplemented, s, w)
   \<and> generateMInstEmbeddings env (getMInst :: 't \<Rightarrow> 'mf \<Rightarrow> (string \<times> 'a Embedding) list) s w
         FunctionName vocab_path =
       (Inl FunctionNotImplemented, s, w)
   \<and> error_kind FunctionNotImplemented = UnsupportedCapability
   \<and> (let r = MIR2VecTool_initializeVocabularyForLayout env (Ctx_M (Ctx s)) (Tool s);
           s1 = s\<lparr>Tool := snd r\<rparr>;
           w1 = w\<lparr>vocab_calls := vocab_calls w @ [MIR2VecInitializeVocabularyForLayout]\<rparr>
       in fst r \<and> (NDEBUG env \<or> MIR2VecTool_getVocabulary env (snd r)) \<longrightarrow>
            generateTriplets env s w =
              (Inr (to_triplets_dict (MIR2VecTool_getTriplets env (snd r) (Ctx_M (Ctx s)))),
               s1, w1)
            \<and> getEntityMappings env s w =
              (Inr (MIR2VecTool_getEntityMappings env (snd r)), s1, w1))"
  by (auto simp: getFuncVectorMap_def generateMBBEmbeddings_def generateMInstEmbeddings_def
      generateEmbeddings_def and_then_def throw_def generateTriplets_def
      getEntityMappings_def verifyMIR2VecVocabulary_def Let_def)

theorem lowered_embedding_entry_points_not_implemented_witness:
  "getFuncVectorMap example_mir_env no_function_embeddings example_session w0
       (Some ''vocab.json'') = (Inl FunctionNotImplemented, example_session, w0)
   \<and> generateMBBEmbeddings example_mir_env no_embeddings example_session w0 ''f'' None =
       (Inl FunctionNotImplemented, example_session, w0)
   \<and> generateTriplets example_mir_env example_session w0 =
       (Inr \<lparr>max_relation = 2, triplets = [(0, 1, 1)]\<rparr>,
        example_session\<lparr>Tool := True\<rparr>,
        w0\<lparr>vocab_calls := [MIR2VecInitializeVocabularyForLayout]\<rparr>)
   \<and> getEntityMappings example_mir_env example_session w0 =
       (Inr [''ADD'', ''RET''],
        example_session\<lparr>Tool := True\<rparr>,
        w0\<lparr>vocab_calls := [MIR2VecInitializeVocabularyForLayout]\<rparr>)"
  using lowered_embedding_entry_points_not_implemented
    [where env = example_mir_env and s = example_session and w = w0
       and vocab_path = "Some ''vocab.json''" and getMBB = no_embeddings
       and getMInst = no_embeddings and getFE = no_function_embeddings
       and FunctionName = "''f''"]
    lowered_embedding_entry_points_not_implemented
    [where env = example_mir_env and s = example_session and w = w0
       and vocab_path = "None" and getMBB = no_embeddings
       and getMInst = no_embeddings and getFE = no_function_embeddings
       and FunctionName = "''f''"]
  by (simp add: example_mir_env_def example_session_def layout_init_def tool_has_vocabulary_def
      example_mir_triplets_def example_entities_def to_triplets_dict_def w0_def Let_def)

text \<open>
  Claim C6, as stated, expects an \<open>InputError\<close> naming the function when embeddings
  are requested for a function that is not in the module. \<open>absent\<close> is not in the
  example module, and the request fails with ``Function Not Implemented'', which is not
  an \<open>InputError\<close> and does not name the function.
\<close>

theorem absent_function_not_implemented_counterexample:
  "getFunction (Ctx_M (Ctx example_session)) ''absent'' = None
   \<and> fst (generateMBBEmbeddings example_mir_env no_embeddings example_session w0 ''absent''
          (Some ''vocab.json'')) = Inl FunctionNotImplemented
   \<and> what FunctionNotImplemented = ''Function Not Implemented''
   \<and> error_kind FunctionNotImplemented \<noteq> InputError"
  by (simp add: generateMBBEmbeddings_def generateEmbeddings_def and_then_def throw_def
      getFunction_def example_session_def example_Ctx_def example_module_def)

text \<open>
  Claim C6, amended. The lookup \<open>getMachineFunction\<close> fails for a name that is not
  in the module, or that is only a declaration, with ``Function not found or is a
  declaration: '' followed by the name, and for a defined function without a machine
  function with ``No MachineFunction found for: '' followed by the name; both are
  \<open>InputError\<close>s, and the lookup does not touch the session. The embedding entry points
  that take a function name never reach this lookup: for every name they fail with
  ``Function Not Implemented'', session and process state unchanged.
\<close>

theorem function_lookup_errors:
  "(getFunction (Ctx_M (Ctx s)) FunctionName = None \<longrightarrow>
      getMachineFunction s FunctionName = Inl (FunctionNotFound FunctionName))
   \<and> (\<forall>F. getFunction (Ctx_M (Ctx s)) FunctionName = Some F \<and> isDeclaration F \<longrightarrow>
      getMachineFunction s FunctionName = Inl (FunctionNotFound FunctionName))
   \<and> (\<forall>F. getFunction (Ctx_M (Ctx s)) FunctionName = Some F \<and> \<not> isDeclaration F
          \<and> Ctx_MMI (Ctx s) F = None \<longrightarrow>
      getMachineFunction s FunctionName = Inl (NoMachineFunction FunctionName))
   \<and> what (FunctionNotFound FunctionName) =
       ''Function not found or is a declaration: '' @ FunctionName
   \<and> what (NoMachineFunction FunctionName) = ''No MachineFunction found for: '' @ FunctionName
   \<and> error_kind (FunctionNotFound FunctionName) = InputError
   \<and> error_kind (NoMachineFunction FunctionName) = InputError
   \<and> generateMBBEmbeddings env getMBB s w FunctionName vocab_path =
       (Inl FunctionNotImplemented, s, w)
   \<and> generateMInstEmbeddings env getMInst s w FunctionName vocab_path =
       (Inl FunctionNotImplemented, s, w)"
  by (simp add: getMachineFunction_def generateMBBEmbeddings_def generateMInstEmbeddings_def
      generateEmbeddings_def and_then_def throw_def)

theorem function_lookup_errors_witness:
  "getMachineFunction example_session ''absent'' = Inl (FunctionNotFound ''absent'')
   \<and> getMachineFunction example_session ''g'' = Inl (FunctionNotFound ''g'')
   \<and> getMachineFunction example_session ''h'' = Inl (NoMachineFunction ''h'')
   \<and> what (FunctionNotFound ''absent'') = ''Function not found or is a declaration: absent''
   \<and> generateMBBEmbeddings example_mir_env no_embeddings example_session w0 ''absent'' None =
       (Inl FunctionNotImplemented, example_session, w0)"
proof -
  note L = function_lookup_errors [where env = example_mir_env and s = example_session
      and w = w0 and getMBB = no_embeddings and getMInst = no_embeddings and vocab_path = None]
  have a: "getFunction (Ctx_M (Ctx example_session)) ''absent'' = None"
    by (simp add: getFunction_def example_session_def example_Ctx_def example_module_def)
  have g: "getFunction (Ctx_M (Ctx example_session)) ''g'' = Some \<lparr>name = ''g'', blocks = []\<rparr>
           \<and> isDeclaration \<lparr>name = ''g'', blocks = []\<rparr>"
    by (simp add: getFunction_def example_session_def example_Ctx_def example_module_def
        isDeclaration_def)
  have h: "getFunction (Ctx_M (Ctx example_session)) ''h'' =
             Some \<lparr>name = ''h'', blocks = [[\<lparr>opcode = 1, resultType = None, operands = []\<rparr>]]\<rparr>
           \<and> \<not> isDeclaration
                 \<lparr>name = ''h'', blocks = [[\<lparr>opcode = 1, resultType = None, operands = []\<rparr>]]\<rparr>
           \<and> Ctx_MMI (Ctx example_session)
                 \<lparr>name = ''h'', blocks = [[\<lparr>opcode = 1, resultType = None, operands = []\<rparr>]]\<rparr> = None"
    by (simp add: getFunction_def example_session_def example_Ctx_def example_module_def
        isDeclaration_def example_MMI_def)
  from L [of "''absent''"] a
  have 1: "getMachineFunction example_session ''absent'' = Inl (FunctionNotFound ''absent'')"
    by blast
  from L [of "''g''"] g
  have 2: "getMachineFunction example_session ''g'' = Inl (FunctionNotFound ''g'')"
    by blast
  from L [of "''h''"] h
  have 3: "getMachineFunction example_session ''h'' = Inl (NoMachineFunction ''h'')"
    by blast
  from L [of "''absent''"]
  have 4: "what (FunctionNotFound ''absent'') = ''Function not found or is a declaration: absent''"
    by simp
  from L [of "''absent''"]
  have 5: "generateMBBEmbeddings example_mir_env no_embeddings example_session w0 ''absent'' None =
       (Inl FunctionNotImplemented, example_session, w0)"
    by blast
  from 1 2 3 4 5 show ?thesis by blast
qed

section \<open>The vocabulary path\<close>

lemma foldl_setIR2VecVocabPath_last:
  "ps \<noteq> [] \<Longrightarrow> IR2VecVocabPath (foldl (\<lambda>w p. setIR2VecVocabPath p w) w ps) = last ps"
  by (induction ps arbitrary: w rule: rev_induct) (simp_all add: setIR2VecVocabPath_def)

lemma foldl_setMIR2VecVocabPath_last:
  "ps \<noteq> [] \<Longrightarrow> MIR2VecVocabPath (foldl (\<lambda>w p. setMIR2VecVocabPath p w) w ps) = last ps"
  by (induction ps arbitrary: w rule: rev_induct) (simp_all add: setMIR2VecVocabPath_def)

text \<open>
  Claim C9, as stated, has each embedding request of the bindings set the vocabulary
  path and then invoke initialization. No embedding request does: \<open>getFuncVectorMap\<close>
  of a lowered-representation session, called with the path \<open>vocab.json\<close>, throws
  and leaves the path empty and the log of vocabulary calls empty, and
  \<open>getFuncVectorMap\<close> of a portable-IR session takes no path and returns the
  embeddings with the process state as it was.
\<close>

theorem embedding_request_sets_no_path_counterexample:
  "getFuncVectorMap example_mir_env no_function_embeddings example_session w0
       (Some ''vocab.json'') = (Inl FunctionNotImplemented, example_session, w0)
   \<and> MIR2VecVocabPath w0 = []
   \<and> vocab_calls w0 = []
   \<and> PyIR2VecTool_getFuncVectorMap example_ir_function_embeddings example_ir_session w0 =
       ([(''f'', ''f'', [36, 20])], w0)"
  by (simp add: getFuncVectorMap_def and_then_def throw_def PyIR2VecTool_getFuncVectorMap_def
      example_ir_function_embeddings_def w0_def)

text \<open>
  Claim C9, amended. The vocabulary path is process-wide state, not an argument of the
  initialization call. After any non-empty sequence of set-path calls the path read back
  is the one set last (for the IR2Vec path and for the MIR2Vec path), and a portable-IR
  initialization that follows is handed exactly that path. In the bindings, the
  portable-IR session constructor (once the file, the mode, the parser and the
  empty-path guard have passed) sets its \<open>vocab_override\<close> and invokes
  initialization immediately afterwards, and the helper
  \<open>initializeMIR2VecVocabularyForEmb\<close> does the same with its \<open>vocab_path\<close>:
  whatever the process state was before, the two calls are the last two entries of the
  log, with the same path, and the tool is initialized on that path. No embedding
  request sets the path or invokes initialization: the three requests of a
  lowered-representation session throw ``Function Not Implemented'' and leave the
  session and the process state as they were, and the three requests of a portable-IR
  session take no path and leave the process state as it was.
\<close>

theorem vocab_path_set_before_initialization:
  "(ps \<noteq> [] \<longrightarrow>
      (let w' = foldl (\<lambda>w p. setIR2VecVocabPath p w) w ps
       in getIR2VecVocabPath w' = last ps
          \<and> initializeVocabulary env T w' =
              (IR2VecTool_initializeVocabulary env (last ps) T,
               w'\<lparr>vocab_calls := vocab_calls w' @ [IR2VecInitializeVocabulary (last ps)]\<rparr>)))
   \<and> (ps \<noteq> [] \<longrightarrow>
      (let w' = foldl (\<lambda>w p. setMIR2VecVocabPath p w) w ps
       in getMIR2VecVocabPath w' = last ps))
   \<and> (\<not> fileNotValid (ir_file_good env) Filename \<and> (mode = ''sym'' \<or> mode = ''fa'')
        \<and> parseIRFile env Filename = Some Mod \<and> VocabOverride \<noteq> [] \<longrightarrow>
      (let r = IR2VecTool_initializeVocabulary env VocabOverride (IR2VecTool_ctor Mod)
       in PyIR2VecTool_ctor env w Filename mode VocabOverride =
            (if fst r then Inr \<lparr>PyIR_M = Mod, PyIR_Tool = snd r\<rparr> else Inl VocabInitFailedIR,
             w\<lparr>IR2VecVocabPath := VocabOverride,
               vocab_calls := vocab_calls w @
                 [SetIR2VecVocabPath VocabOverride, IR2VecInitializeVocabulary VocabOverride]\<rparr>)))
   \<and> (let r = MIR2VecTool_initializeVocabulary menv vocab_path (Ctx_M (Ctx s)) (Tool s);
           s1 = s\<lparr>Tool := snd r\<rparr>
       in initializeMIR2VecVocabularyForEmb menv s w vocab_path =
            (if fst r then verifyMIR2VecVocabulary menv s1 else Inl VocabInitFailedMIR,
             s1,
             w\<lparr>MIR2VecVocabPath := vocab_path,
               vocab_calls := vocab_calls w @
                 [SetMIR2VecVocabPath vocab_path, MIR2VecInitializeVocabulary vocab_path]\<rparr>))
   \<and> getFuncVectorMap menv (getFE :: 't \<Rightarrow> Module \<Rightarrow> (string \<times> string \<times> 'a Embedding) list) s w
         vp = (Inl FunctionNotImplemented, s, w)
   \<and> generateMBBEmbeddings menv (getMBB :: 't \<Rightarrow> 'mf \<Rightarrow> (string \<times> 'a Embedding) list) s w
         FunctionName vp = (Inl FunctionNotImplemented, s, w)
   \<and> generateMInstEmbeddings menv (getMInst :: 't \<Rightarrow> 'mf \<Rightarrow> (string \<times> 'a Embedding) list) s w
         FunctionName vp = (Inl FunctionNotImplemented, s, w)
   \<and> snd (PyIR2VecTool_getFuncVectorMap
            (getFunctionEmbeddings :: 'v IR2VecTool \<Rightarrow> (string \<times> string \<times> 'a Embedding) list)
            irs w) = w
   \<and> snd (PyIR2VecTool_generateBBEmbeddings
            (getBBEmbeddings :: 'v IR2VecTool \<Rightarrow> (string \<times> 'a Embedding) list) irs w) = w
   \<and> snd (PyIR2VecTool_generateInstEmbeddings
            (getInstEmbeddings :: 'v IR2VecTool \<Rightarrow> (string \<times> 'a Embedding) list) irs w) = w"
proof (intro conjI impI)
  assume "ps \<noteq> []"
  then show "let w' = foldl (\<lambda>w p. setIR2VecVocabPath p w) w ps
       in getIR2VecVocabPath w' = last ps
          \<and> initializeVocabulary env T w' =
              (IR2VecTool_initializeVocabulary env (last ps) T,
               w'\<lparr>vocab_calls := vocab_calls w' @ [IR2VecInitializeVocabulary (last ps)]\<rparr>)"
    by (simp add: Let_def getIR2VecVocabPath_def initializeVocabulary_def
        foldl_setIR2VecVocabPath_last)
next
  assume "ps \<noteq> []"
  then show "let w' = foldl (\<lambda>w p. setMIR2VecVocabPath p w) w ps
       in getMIR2VecVocabPath w' = last ps"
    by (simp add: Let_def getMIR2VecVocabPath_def foldl_setMIR2VecVocabPath_last)
next
  assume "\<not> fileNotValid (ir_file_good env) Filename \<and> (mode = ''sym'' \<or> mode = ''fa'')
        \<and> parseIRFile env Filename = Some Mod \<and> VocabOverride \<noteq> []"
  then show "let r = IR2VecTool_initializeVocabulary env VocabOverride (IR2VecTool_ctor Mod)
       in PyIR2VecTool_ctor env w Filename mode VocabOverride =
            (if fst r then Inr \<lparr>PyIR_M = Mod, PyIR_Tool = snd r\<rparr> else Inl VocabInitFailedIR,
             w\<lparr>IR2VecVocabPath := VocabOverride,
               vocab_calls := vocab_calls w @
                 [SetIR2VecVocabPath VocabOverride, IR2VecInitializeVocabulary VocabOverride]\<rparr>)"
    by (auto simp: PyIR2VecTool_ctor_def getLLVMIR_def initializeVocabulary_def
        setIR2VecVocabPath_def getIR2VecVocabPath_def Let_def)
next
  show "let r = MIR2VecTool_initializeVocabulary menv vocab_path (Ctx_M (Ctx s)) (Tool s);
           s1 = s\<lparr>Tool := snd r\<rparr>
       in initializeMIR2VecVocabularyForEmb menv s w vocab_path =
            (if fst r then verifyMIR2VecVocabulary menv s1 else Inl VocabInitFailedMIR,
             s1,
             w\<lparr>MIR2VecVocabPath := vocab_path,
               vocab_calls := vocab_calls w @
                 [SetMIR2VecVocabPath vocab_path, MIR2VecInitializeVocabulary vocab_path]\<rparr>)"
    by (simp add: initializeMIR2VecVocabularyForEmb_def setMIR2VecVocabPath_def
        getMIR2VecVocabPath_def Let_def)
next
  show "getFuncVectorMap menv getFE s w vp = (Inl FunctionNotImplemented, s, w)"
    by (simp add: getFuncVectorMap_def and_then_def throw_def)
next
  show "generateMBBEmbeddings menv getMBB s w FunctionName vp =
          (Inl FunctionNotImplemented, s, w)"
    by (simp add: generateMBBEmbeddings_def generateEmbeddings_def and_then_def throw_def)
next
  show "generateMInstEmbeddings menv getMInst s w FunctionName vp =
          (Inl FunctionNotImplemented, s, w)"
    by (simp add: generateMInstEmbeddings_def generateEmbeddings_def and_then_def throw_def)
next
  show "snd (PyIR2VecTool_getFuncVectorMap getFunctionEmbeddings irs w) = w"
    by (simp add: PyIR2VecTool_getFuncVectorMap_def)
next
  show "snd (PyIR2VecTool_generateBBEmbeddings getBBEmbeddings irs w) = w"
    by (simp add: PyIR2VecTool_generateBBEmbeddings_def)
next
  show "snd (PyIR2VecTool_generateInstEmbeddings getInstEmbeddings irs w) = w"
    by (simp add: PyIR2VecTool_generateInstEmbeddings_def)
qed

theorem vocab_path_set_before_initialization_witness:
  "initializeVocabulary example_ir_env (IR2VecTool_ctor example_module)
       (foldl (\<lambda>w p. setIR2VecVocabPath p w) w0 [''other.json'', ''vocab.json'']) =
     ((True, \<lparr>M = example_module, Vocab = Some ()\<rparr>),
      \<lparr>IR2VecVocabPath = ''vocab.json'', MIR2VecVocabPath = [],
        vocab_calls = [SetIR2VecVocabPath ''other.json'', SetIR2VecVocabPath ''vocab.json'',
                       IR2VecInitializeVocabulary ''vocab.json'']\<rparr>)
   \<and> PyIR2VecTool_ctor example_ir_env w0 ''test.ll'' ''sym'' ''vocab.json'' =
       (Inr \<lparr>PyIR_M = example_module, PyIR_Tool = \<lparr>M = example_module, Vocab = Some ()\<rparr>\<rparr>,
        \<lparr>IR2VecVocabPath = ''vocab.json'', MIR2VecVocabPath = [],
          vocab_calls = [SetIR2VecVocabPath ''vocab.json'',
                         IR2VecInitializeVocabulary ''vocab.json'']\<rparr>)
   \<and> initializeMIR2VecVocabularyForEmb example_mir_env example_session w0 ''vocab.json'' =
       (Inr (), example_session\<lparr>Tool := True\<rparr>,
        \<lparr>IR2VecVocabPath = [], MIR2VecVocabPath = ''vocab.json'',
          vocab_calls = [SetMIR2VecVocabPath ''vocab.json'',
                         MIR2VecInitializeVocabulary ''vocab.json'']\<rparr>)
   \<and> generateMInstEmbeddings example_mir_env no_embeddings example_session w0 ''f''
         (Some ''vocab.json'') = (Inl FunctionNotImplemented, example_session, w0)
   \<and> snd (PyIR2VecTool_generateBBEmbeddings example_ir_embeddings example_ir_session w0) = w0"
  using vocab_path_set_before_initialization
    [where ps = "[''other.json'', ''vocab.json'']" and w = w0 and env = example_ir_env
       and T = "IR2VecTool_ctor example_module" and Filename = "''test.ll''"
       and mode = "''sym''" and Mod = example_module and VocabOverride = "''vocab.json''"
       and menv = example_mir_env and s = example_session and vocab_path = "''vocab.json''"
       and getFE = no_function_embeddings and getMBB = no_embeddings
       and getMInst = no_embeddings and FunctionName = "''f''" and vp = "Some ''vocab.json''"
       and getFunctionEmbeddings = example_ir_function_embeddings
       and getBBEmbeddings = example_ir_embeddings
       and getInstEmbeddings = example_ir_embeddings and irs = example_ir_session]
  by (simp add: Let_def example_ir_env_def example_mir_env_def example_session_def
      fileNotValid_def only_test_ll_def parse_example_def load_vocabulary_def
      IR2VecTool_ctor_def setIR2VecVocabPath_def full_init_def verifyMIR2VecVocabulary_def
      tool_has_vocabulary_def w0_def)

section \<open>Triplet extraction\<close>

lemma ArgRelation_blockTriplets:
  "t \<in> set (blockTriplets B) \<Longrightarrow> Relation t = 2 \<Longrightarrow> \<exists>I \<in> set B. operands I \<noteq> []"
proof (induction B)
  case Nil
  then show ?case by simp
next
  case (Cons I rest)
  then show ?case
    by (cases "operands I = []")
       (auto simp: typeTriplets_def argTriplets_def nextTriplet_def
             split: option.splits list.splits)
qed

text \<open>
  Claim C3. For every module and for every single function, \<open>MaxRelation\<close> of the
  result of triplet extraction is 2, the largest of the three relation kinds of the
  header (\<open>TypeRelation = 0\<close>, \<open>NextRelation = 1\<close>, \<open>ArgRelation = 2\<close>), and so is
  \<open>max_relation\<close> of the dictionary the binding returns. This does not depend on the
  triples found: in a module without any operand no triple has the relation
  \<open>ArgRelation\<close>, and \<open>MaxRelation\<close> is 2 all the same.
\<close>

theorem MaxRelation_is_upper_bound:
  "MaxRelation (getTriplets Mod) = 2
   \<and> MaxRelation (getTriplets_Function F) = 2
   \<and> max_relation (PyIR2VecTool_generateTriplets s) = 2
   \<and> ((\<forall>F \<in> set Mod. \<forall>B \<in> set (blocks F). \<forall>I \<in> set B. operands I = []) \<longrightarrow>
        (\<forall>t \<in> set (Triplets (getTriplets Mod)). Relation t \<noteq> RelationType_value ArgRelation)
        \<and> MaxRelation (getTriplets Mod) = 2)"
proof (intro conjI impI ballI)
  fix t
  assume no: "\<forall>F \<in> set Mod. \<forall>B \<in> set (blocks F). \<forall>I \<in> set B. operands I = []"
    and t: "t \<in> set (Triplets (getTriplets Mod))"
  from t obtain F B where "F \<in> set Mod" "B \<in> set (blocks F)" "t \<in> set (blockTriplets B)"
    by (auto simp: getTriplets_def functionTriplets_def functionsOf_def)
  with no ArgRelation_blockTriplets [of t B]
  show "Relation t \<noteq> RelationType_value ArgRelation"
    by auto
qed (simp_all add: getTriplets_def getTriplets_Function_def PyIR2VecTool_generateTriplets_def
      to_triplets_dict_def)

theorem MaxRelation_is_upper_bound_witness:
  "MaxRelation (getTriplets no_operand_module) = 2
   \<and> max_relation (PyIR2VecTool_generateTriplets
         \<lparr>PyIR_M = no_operand_module,
           PyIR_Tool = \<lparr>M = no_operand_module, Vocab = Some ()\<rparr>\<rparr>) = 2
   \<and> \<lparr>Head = 1, Tail = 5, Relation = 2\<rparr> \<notin> set (Triplets (getTriplets no_operand_module))"
proof -
  have h: "\<forall>F \<in> set no_operand_module. \<forall>B \<in> set (blocks F). \<forall>I \<in> set B. operands I = []"
    by (simp add: no_operand_module_def)
  from h MaxRelation_is_upper_bound [of no_operand_module _
      "\<lparr>PyIR_M = no_operand_module, PyIR_Tool = \<lparr>M = no_operand_module, Vocab = Some ()\<rparr>\<rparr>"]
  show ?thesis by fastforce
qed

lemma filter_Next_typeTriplets:
  "filter (\<lambda>t. Relation t = Suc 0) (typeTriplets I) = []"
  by (simp add: typeTriplets_def split: option.splits)

lemma filter_Next_argTriplets:
  "filter (\<lambda>t. Relation t = Suc 0) (argTriplets I) = []"
  by (simp add: argTriplets_def filter_map o_def)

lemma consecutiveNext_Nil: "consecutiveNext [] = []"
  by (simp add: consecutiveNext_def)

lemma consecutiveNext_single: "consecutiveNext [I] = []"
  by (simp add: consecutiveNext_def)

lemma consecutiveNext_Cons:
  "consecutiveNext (I # I' # rest) = nextTriplet I I' # consecutiveNext (I' # rest)"
proof -
  have "[0..<Suc (length rest)] = 0 # map Suc [0..<length rest]"
    by (simp add: upt_conv_Cons map_Suc_upt del: upt_Suc)
  then show ?thesis
    by (simp add: consecutiveNext_def del: upt_Suc)
qed

lemma filter_Next_blockTriplets:
  "filter (\<lambda>t. Relation t = Suc 0) (blockTriplets B) =
     consecutiveNext B"
proof (induction B)
  case Nil
  show ?case by (simp add: consecutiveNext_Nil)
next
  case (Cons I rest)
  show ?case
  proof (cases rest)
    case Nil
    then show ?thesis
      by (simp add: filter_Next_typeTriplets filter_Next_argTriplets consecutiveNext_single)
  next
    case (Cons I' rest')
    with Cons.IH show ?thesis
      by (simp add: filter_Next_typeTriplets filter_Next_argTriplets consecutiveNext_Cons
          nextTriplet_def)
  qed
qed

lemma filter_Next_functionTriplets:
  "filter (\<lambda>t. Relation t = Suc 0) (functionTriplets F) =
     concat (map consecutiveNext (blocks F))"
  by (simp add: functionTriplets_def filter_concat o_def filter_Next_blockTriplets)

lemma concat_map_concat_map:
  "concat (map (\<lambda>x. concat (map g (h x))) xs) = concat (map g (concat (map h xs)))"
  by (induction xs) simp_all

lemma filter_Next_getTriplets:
  "filter (\<lambda>t. Relation t = Suc 0) (Triplets (getTriplets Mod)) =
     concat (map consecutiveNext (concat (map blocks (functionsOf Mod))))"
  by (simp add: getTriplets_def filter_concat o_def filter_Next_functionTriplets
      concat_map_concat_map)

lemma in_consecutiveNext:
  "t \<in> set (consecutiveNext B) \<Longrightarrow>
     \<exists>k. Suc k < length B \<and> Head t = opcode (B ! k) \<and> Tail t = opcode (B ! Suc k)"
proof -
  assume "t \<in> set (consecutiveNext B)"
  then obtain k where k: "k < length B - 1" and t: "t = nextTriplet (B ! k) (B ! Suc k)"
    by (auto simp: consecutiveNext_def)
  from k have "Suc k < length B" by arith
  with t show ?thesis by (auto simp: nextTriplet_def)
qed

text \<open>
  Claim C4. The \<open>Next\<close> triples of \<open>getTriplets\<close> are exactly, block after block,
  the triples between instructions that stand next to each other in one block; so every
  \<open>Next\<close> triple of the result has as head and tail the opcodes of two consecutive
  instructions of one block of one function, and none joins the last instruction of a
  block to the first of another. The same holds for the extraction from one function.
\<close>

theorem next_triplets_within_one_block:
  "filter (\<lambda>t. Relation t = RelationType_value NextRelation) (Triplets (getTriplets Mod)) =
     concat (map consecutiveNext (concat (map blocks (functionsOf Mod))))
   \<and> (\<forall>t \<in> set (Triplets (getTriplets Mod)).
        Relation t = RelationType_value NextRelation \<longrightarrow>
        (\<exists>F \<in> set (functionsOf Mod). \<exists>B \<in> set (blocks F). \<exists>k.
           Suc k < length B \<and> Head t = opcode (B ! k) \<and> Tail t = opcode (B ! Suc k)))
   \<and> filter (\<lambda>t. Relation t = RelationType_value NextRelation)
        (Triplets (getTriplets_Function F')) = concat (map consecutiveNext (blocks F'))"
proof (intro conjI ballI impI)
  show "filter (\<lambda>t. Relation t = RelationType_value NextRelation) (Triplets (getTriplets Mod)) =
     concat (map consecutiveNext (concat (map blocks (functionsOf Mod))))"
    by (simp add: filter_Next_getTriplets)
next
  fix t
  assume t: "t \<in> set (Triplets (getTriplets Mod))"
    and r: "Relation t = RelationType_value NextRelation"
  then have "t \<in> set (filter (\<lambda>t. Relation t = RelationType_value NextRelation)
                        (Triplets (getTriplets Mod)))"
    by simp
  then have "t \<in> set (concat (map consecutiveNext (concat (map blocks (functionsOf Mod)))))"
    by (simp add: filter_Next_getTriplets)
  then obtain F B where "F \<in> set (functionsOf Mod)" "B \<in> set (blocks F)"
    "t \<in> set (consecutiveNext B)"
    by auto
  then show "\<exists>F \<in> set (functionsOf Mod). \<exists>B \<in> set (blocks F). \<exists>k.
           Suc k < length B \<and> Head t = opcode (B ! k) \<and> Tail t = opcode (B ! Suc k)"
    using in_consecutiveNext by blast
next
  show "filter (\<lambda>t. Relation t = RelationType_value NextRelation)
        (Triplets (getTriplets_Function F')) = concat (map consecutiveNext (blocks F'))"
    by (simp add: getTriplets_Function_def filter_Next_functionTriplets)
qed

theorem next_triplets_within_one_block_witness:
  "filter (\<lambda>t. Relation t = RelationType_value NextRelation)
     (Triplets (getTriplets example_module)) = [\<lparr>Head = 13, Tail = 1, Relation = 1\<rparr>]
   \<and> \<lparr>Head = 1, Tail = 2, Relation = 1\<rparr> \<notin> set (Triplets (getTriplets example_module))
   \<and> (\<exists>F B k. F \<in> set (functionsOf example_module) \<and> B \<in> set (blocks F)
          \<and> Suc k < length B \<and> opcode (B ! k) = 13 \<and> opcode (B ! Suc k) = 1)
   \<and> filter (\<lambda>t. Relation t = RelationType_value NextRelation)
        (Triplets (getTriplets_Function \<lparr>name = ''f'', blocks = [add_ret_block, add_ret_block]\<rparr>)) =
       [\<lparr>Head = 13, Tail = 1, Relation = 1\<rparr>, \<lparr>Head = 13, Tail = 1, Relation = 1\<rparr>]"
proof -
  note T = next_triplets_within_one_block [of example_module
      "\<lparr>name = ''f'', blocks = [add_ret_block, add_ret_block]\<rparr>"]
  from T have 1: "filter (\<lambda>t. Relation t = RelationType_value NextRelation)
     (Triplets (getTriplets example_module)) = [\<lparr>Head = 13, Tail = 1, Relation = 1\<rparr>]"
    by (simp add: functionsOf_def isDeclaration_def example_module_def add_ret_block_def
        consecutiveNext_def nextTriplet_def)
  let ?ts = "Triplets (getTriplets example_module)"
  let ?n = "\<lparr>Head = 13, Tail = 1, Relation = 1\<rparr>"
  have "?n \<in> set (filter (\<lambda>t. Relation t = RelationType_value NextRelation) ?ts)"
    by (simp only: 1) simp
  then have m: "?n \<in> set ?ts"
    by (simp only: set_filter) blast
  have 2: "\<lparr>Head = 1, Tail = 2, Relation = 1\<rparr> \<notin> set ?ts"
  proof
    assume "\<lparr>Head = 1, Tail = 2, Relation = 1\<rparr> \<in> set ?ts"
    then have "\<lparr>Head = 1, Tail = 2, Relation = 1\<rparr>
                 \<in> set (filter (\<lambda>t. Relation t = RelationType_value NextRelation) ?ts)"
      by simp
    then show False
      by (simp only: 1) simp
  qed
  from T have B: "\<forall>t \<in> set ?ts. Relation t = RelationType_value NextRelation \<longrightarrow>
        (\<exists>F \<in> set (functionsOf example_module). \<exists>B \<in> set (blocks F). \<exists>k.
           Suc k < length B \<and> Head t = opcode (B ! k) \<and> Tail t = opcode (B ! Suc k))"
    by (elim conjE)
  have "Relation ?n = RelationType_value NextRelation"
    by simp
  with bspec [OF B m]
  have "\<exists>F \<in> set (functionsOf example_module). \<exists>B \<in> set (blocks F). \<exists>k.
           Suc k < length B \<and> Head ?n = opcode (B ! k) \<and> Tail ?n = opcode (B ! Suc k)"
    by (rule mp)
  then obtain F B k where "F \<in> set (functionsOf example_module)" "B \<in> set (blocks F)"
    "Suc k < length B" "opcode (B ! k) = 13" "opcode (B ! Suc k) = 1"
    by (elim bexE exE conjE) simp
  then have 3: "\<exists>F B k. F \<in> set (functionsOf example_module) \<and> B \<in> set (blocks F)
          \<and> Suc k < length B \<and> opcode (B ! k) = 13 \<and> opcode (B ! Suc k) = 1"
    by (intro exI conjI)
  from T have 4: "filter (\<lambda>t. Relation t = RelationType_value NextRelation)
        (Triplets (getTriplets_Function \<lparr>name = ''f'', blocks = [add_ret_block, add_ret_block]\<rparr>)) =
       [\<lparr>Head = 13, Tail = 1, Relation = 1\<rparr>, \<lparr>Head = 13, Tail = 1, Relation = 1\<rparr>]"
    by (simp add: add_ret_block_def consecutiveNext_def nextTriplet_def)
  from 1 2 3 4 show ?thesis by blast
qed

section \<open>Dimension of the embeddings\<close>

lemma initializeFull_ok:
  "initializeFull catalog vocabulary_file path = Inr V \<Longrightarrow> vocabulary_ok V"
  by (auto simp: initializeFull_def vocabulary_ok_def
           split: if_splits option.splits list.splits)

lemma lookupEntity_length:
  "vocabulary_ok V \<Longrightarrow> lookupEntity V i = Inr e \<Longrightarrow> length e = dimension V"
  by (auto simp: lookupEntity_def vocabulary_ok_def canonicalSize_def list_all_length
           split: if_splits)

lemma mapE_all:
  "mapE f xs = Inr ys \<Longrightarrow> (\<And>x y. f x = Inr y \<Longrightarrow> P y) \<Longrightarrow> list_all P ys"
proof (induction xs arbitrary: ys)
  case Nil
  then show ?case by simp
next
  case (Cons x xs)
  then show ?case
    by (auto simp: bindE_def split: sum.splits)
qed

lemma length_vadd: "length x = D \<Longrightarrow> length y = D \<Longrightarrow> length (vadd ar x y) = D"
  by (simp add: vadd_def)

lemma length_vscale: "length (vscale ar c x) = length x"
  by (simp add: vscale_def)

lemma length_vzero: "length (vzero ar D) = D"
  by (simp add: vzero_def)

lemma length_foldl_vadd:
  "length acc = D \<Longrightarrow> list_all (\<lambda>e. length e = D) xs \<Longrightarrow> length (foldl (vadd ar) acc xs) = D"
  by (induction xs arbitrary: acc) (simp_all add: length_vadd)

lemma length_vsum:
  "list_all (\<lambda>e. length e = D) xs \<Longrightarrow> length (vsum ar D xs) = D"
  by (simp add: vsum_def length_foldl_vadd length_vzero)

lemma length_aggregate:
  "list_all (\<lambda>e. length e = D) xs \<Longrightarrow> length (aggregate ar D xs) = D"
  by (simp add: aggregate_def length_vscale length_vsum)

lemma length_embedInstruction:
  assumes ok: "vocabulary_ok V" and e: "embedInstruction ar (Some V) I = Inr e"
  shows "length e = dimension V"
proof -
  from e obtain ov tv args where
    ov: "lookupEntity V (opcode I) = Inr ov" and
    tv: "(case resultType I of
            None \<Rightarrow> Inr (vzero ar (dimension V))
          | Some T \<Rightarrow> bindE (lookupEntity V T) (\<lambda>t. Inr (vscale ar (typeWeight ar) t))) = Inr tv" and
    args: "mapE (lookupEntity V) (operands I) = Inr args" and
    res: "e = vadd ar (vadd ar (vscale ar (opcodeWeight ar) ov) tv)
               (vscale ar (argWeight ar) (vsum ar (dimension V) args))"
    by (auto simp: embedInstruction_def bindE_def split: sum.splits)
  from ok ov have 1: "length ov = dimension V"
    by (rule lookupEntity_length)
  from ok tv have 2: "length tv = dimension V"
    by (auto simp: bindE_def length_vzero length_vscale
             split: option.splits sum.splits dest: lookupEntity_length)
  from args have "list_all (\<lambda>e. length e = dimension V) args"
    by (rule mapE_all) (rule lookupEntity_length [OF ok])
  then have 3: "length (vsum ar (dimension V) args) = dimension V"
    by (rule length_vsum)
  from 1 2 3 show ?thesis
    unfolding res by (simp add: length_vadd length_vscale)
qed

lemma length_embedBlock:
  assumes ok: "vocabulary_ok V" and e: "embedBlock ar (Some V) B = Inr e"
  shows "length e = dimension V"
proof -
  from e obtain es where es: "mapE (embedInstruction ar (Some V)) B = Inr es"
    and res: "e = aggregate ar (dimension V) es"
    by (auto simp: embedBlock_def bindE_def split: sum.splits)
  from es have "list_all (\<lambda>e. length e = dimension V) es"
    by (rule mapE_all) (rule length_embedInstruction [OF ok])
  then show ?thesis
    unfolding res by (rule length_aggregate)
qed

lemma length_embedFunction:
  assumes ok: "vocabulary_ok V" and e: "embedFunction ar (Some V) F = Inr e"
  shows "length e = dimension V"
proof -
  from e obtain es where es: "mapE (embedBlock ar (Some V)) (blocks F) = Inr es"
    and res: "e = aggregate ar (dimension V) es"
    by (auto simp: embedFunction_def bindE_def split: sum.splits)
  from es have "list_all (\<lambda>e. length e = dimension V) es"
    by (rule mapE_all) (rule length_embedBlock [OF ok])
  then show ?thesis
    unfolding res by (rule length_aggregate)
qed

text \<open>
  Claim C7. If full initialization of the vocabulary has succeeded, then every embedding
  that \<open>embedInstruction\<close>, \<open>embedBlock\<close> or \<open>embedFunction\<close> produces with
  that vocabulary has exactly \<open>dimension\<close> elements. This holds for any arithmetic on
  the elements and any weights.
\<close>

theorem embeddings_have_vocabulary_dimension:
  assumes "initializeFull catalog vocabulary_file path = Inr V"
  shows "(embedInstruction ar (Some V) I = Inr e1 \<longrightarrow> length e1 = dimension V)
       \<and> (embedBlock ar (Some V) B = Inr e2 \<longrightarrow> length e2 = dimension V)
       \<and> (embedFunction ar (Some V) F = Inr e3 \<longrightarrow> length e3 = dimension V)"
  using initializeFull_ok [OF assms] length_embedInstruction length_embedBlock
    length_embedFunction
  by blast

theorem embeddings_have_vocabulary_dimension_witness:
  "initializeFull example_catalog example_vocabulary_file ''vocab.json'' = Inr example_vocabulary
   \<and> embedInstruction int_weights (Some example_vocabulary)
         \<lparr>opcode = 0, resultType = Some 2, operands = [2, 2]\<rparr> = Inr [10, 3]
   \<and> embedBlock int_weights (Some example_vocabulary) example_block = Inr [18, 10]
   \<and> embedFunction int_weights (Some example_vocabulary)
         \<lparr>name = ''f'', blocks = [example_block, example_block]\<rparr> = Inr [36, 20]
   \<and> length [36, 20 :: int] = dimension example_vocabulary"
proof -
  have h: "initializeFull example_catalog example_vocabulary_file ''vocab.json'' =
             Inr example_vocabulary"
    by code_simp
  have i: "embedInstruction int_weights (Some example_vocabulary)
             \<lparr>opcode = 0, resultType = Some 2, operands = [2, 2]\<rparr> = Inr [10, 3]"
    by code_simp
  have b: "embedBlock int_weights (Some example_vocabulary) example_block = Inr [18, 10]"
    by code_simp
  have f: "embedFunction int_weights (Some example_vocabulary)
             \<lparr>name = ''f'', blocks = [example_block, example_block]\<rparr> = Inr [36, 20]"
    by code_simp
  from embeddings_have_vocabulary_dimension [OF h, where ar = int_weights
      and F = "\<lparr>name = ''f'', blocks = [example_block, example_block]\<rparr>" and ?e3.0 = "[36, 20]"] f
  have "length [36, 20 :: int] = dimension example_vocabulary"
    by blast
  with h i b f show ?thesis by blast
qed

section \<open>Order of the blocks\<close>

text \<open>
  The function embedding is a sum over the blocks. Whether it depends on the order of the
  blocks is a question about the addition of vector elements: the elements of the program
  are floating-point numbers, whose addition is commutative but not associative, so two
  orders of the same blocks may differ by rounding, and that arithmetic is a parameter
  here. For an addition that is associative and commutative (exact arithmetic) the order
  of the blocks does not matter, as the last lemma of this section shows.
\<close>

lemma vadd_right_commute:
  assumes comm: "\<And>x y. add ar x y = add ar y x"
    and assoc: "\<And>x y z. add ar (add ar x y) z = add ar x (add ar y z)"
  shows "vadd ar (vadd ar a x) y = vadd ar (vadd ar a y) x"
proof (induction a arbitrary: x y)
  case Nil
  show ?case by (simp add: vadd_def)
next
  case (Cons u a)
  have swap: "\<And>p q. add ar (add ar u p) q = add ar (add ar u q) p"
    by (metis comm assoc)
  show ?case
  proof (cases x)
    case Nil
    then show ?thesis by (simp add: vadd_def)
  next
    case x: (Cons p x')
    show ?thesis
    proof (cases y)
      case Nil
      then show ?thesis by (simp add: vadd_def)
    next
      case y: (Cons q y')
      from Cons.IH [of x' y'] show ?thesis
        by (simp add: vadd_def x y swap)
    qed
  qed
qed

lemma vsum_mset:
  assumes comm: "\<And>x y. add ar x y = add ar y x"
    and assoc: "\<And>x y z. add ar (add ar x y) z = add ar x (add ar y z)"
    and perm: "mset xs = mset ys"
  shows "vsum ar D xs = vsum ar D ys"
proof -
  have "fold (\<lambda>x a. vadd ar a x) xs = fold (\<lambda>x a. vadd ar a x) ys"
    using perm
    by (intro fold_multiset_equiv) (auto simp: fun_eq_iff vadd_right_commute [OF comm assoc])
  then show ?thesis
    by (simp add: vsum_def foldl_conv_fold)
qed

lemma aggregate_mset:
  assumes comm: "\<And>x y. add ar x y = add ar y x"
    and assoc: "\<And>x y z. add ar (add ar x y) z = add ar x (add ar y z)"
    and perm: "mset xs = mset ys"
  shows "aggregate ar D xs = aggregate ar D ys"
proof -
  from perm have "length xs = length ys"
    by (rule mset_eq_length)
  with vsum_mset [OF comm assoc perm] show ?thesis
    by (simp add: aggregate_def)
qed

lemma mapE_Inr_map:
  "mapE f xs = Inr ys \<Longrightarrow> map f xs = map Inr ys"
proof (induction xs arbitrary: ys)
  case Nil
  then show ?case by simp
next
  case (Cons x xs)
  then show ?case
    by (auto simp: bindE_def split: sum.splits)
qed

lemma image_mset_Inr_eq:
  assumes "image_mset (Inr :: 'b \<Rightarrow> 'e + 'b) A = image_mset Inr B"
  shows "A = B"
proof -
  from assms
  have "image_mset projr (image_mset (Inr :: 'b \<Rightarrow> 'e + 'b) A) =
        image_mset projr (image_mset (Inr :: 'b \<Rightarrow> 'e + 'b) B)"
    by simp
  then show ?thesis
    by (simp add: multiset.map_comp comp_def)
qed

lemma mapE_Inl:
  "mapE f xs = Inl e \<Longrightarrow> \<exists>x \<in> set xs. f x = Inl e"
proof (induction xs)
  case Nil
  then show ?case by simp
next
  case (Cons x xs)
  then show ?case
    by (auto simp: bindE_def split: sum.splits)
qed

lemma lookupEntity_Inl: "lookupEntity V i = Inl e \<Longrightarrow> e = OutOfRange"
  by (simp add: lookupEntity_def split: if_splits)

lemma embedInstruction_Inl: "embedInstruction ar (Some V) I = Inl e \<Longrightarrow> e = OutOfRange"
  by (auto simp: embedInstruction_def bindE_def split: sum.splits option.splits
           dest: lookupEntity_Inl mapE_Inl)

lemma embedBlock_Inl: "embedBlock ar (Some V) B = Inl e \<Longrightarrow> e = OutOfRange"
  by (auto simp: embedBlock_def bindE_def split: sum.splits
           dest: embedInstruction_Inl mapE_Inl)

text \<open>
  With an associative and commutative addition of elements, two functions with the same
  blocks in a different layout order have the same embedding (or fail alike).
\<close>

lemma embedFunction_block_order_exact:
  assumes comm: "\<And>x y. add ar x y = add ar y x"
    and assoc: "\<And>x y z. add ar (add ar x y) z = add ar x (add ar y z)"
    and perm: "mset (blocks F) = mset (blocks G)"
  shows "embedFunction ar Vo F = embedFunction ar Vo G"
proof (cases Vo)
  case None
  then show ?thesis by (simp add: embedFunction_def)
next
  case (Some V)
  let ?f = "embedBlock ar (Some V)"
  show ?thesis
  proof (cases "mapE ?f (blocks F)")
    case (Inr es)
    then have F: "map ?f (blocks F) = map Inr es"
      by (rule mapE_Inr_map)
    have all: "\<forall>B \<in> set (blocks G). \<exists>e. ?f B = Inr e"
    proof
      fix B assume "B \<in> set (blocks G)"
      with perm have "B \<in> set (blocks F)" by (metis mset_eq_setD)
      then have "?f B \<in> set (map ?f (blocks F))" by simp
      with F show "\<exists>e. ?f B = Inr e" by auto
    qed
    obtain es' where G: "mapE ?f (blocks G) = Inr es'"
    proof (cases "mapE ?f (blocks G)")
      case (Inl e)
      with all mapE_Inl [of ?f "blocks G" e] show ?thesis by auto
    next
      case (Inr es')
      then show ?thesis by (rule that)
    qed
    then have G': "map ?f (blocks G) = map Inr es'"
      by (rule mapE_Inr_map)
    have "image_mset Inr (mset es) = image_mset ?f (mset (blocks F))"
      using F by (metis mset_map)
    also have "\<dots> = image_mset ?f (mset (blocks G))"
      by (simp add: perm)
    also have "\<dots> = image_mset Inr (mset es')"
      using G' by (metis mset_map)
    finally have "mset es = mset es'"
      by (rule image_mset_Inr_eq)
    from aggregate_mset [OF comm assoc this] Inr G Some show ?thesis
      by (simp add: embedFunction_def bindE_def)
  next
    case (Inl e)
    from mapE_Inl [OF this] obtain B where B: "B \<in> set (blocks F)" "?f B = Inl e"
      by (elim bexE)
    from B(2) have e: "e = OutOfRange" by (rule embedBlock_Inl)
    from B perm have BG: "B \<in> set (blocks G)" by (metis mset_eq_setD)
    have "\<exists>e'. mapE ?f (blocks G) = Inl e'"
    proof (cases "mapE ?f (blocks G)")
      case (Inr es')
      then have "map ?f (blocks G) = map Inr es'" by (rule mapE_Inr_map)
      moreover from BG have "?f B \<in> set (map ?f (blocks G))" by simp
      ultimately show ?thesis using B(2) by auto
    qed simp
    then obtain e' where G: "mapE ?f (blocks G) = Inl e'" by (elim exE)
    from mapE_Inl [OF G] obtain B' where "?f B' = Inl e'"
      by (elim bexE)
    then have "e' = OutOfRange" by (rule embedBlock_Inl)
    with e Inl G Some show ?thesis
      by (simp add: embedFunction_def bindE_def)
  qed
qed

end
